theory Spec2Isabelle
  imports Complex_Main "HOL-Library.Word"
begin

section \<open>Strings of the host language\<close>

text \<open>
  Source strings are sequences of code units; the model keeps the code units below 256
  (\<^typ>\<open>char\<close>), which covers every literal of the program. The three library
  operations the page uses are written out: \<open>String.prototype.split\<close> with a
  one-character separator, \<open>trim\<close> and \<open>toLowerCase\<close>.
\<close>

text \<open>\<open>s.split(sep)\<close>: the pieces between the separators; the empty string gives one
  empty piece, so the result is never the empty list and the last case of the second
  equation is never taken.\<close>

fun split_on :: "char \<Rightarrow> string \<Rightarrow> string list" where
  "split_on sep [] = [[]]"
| "split_on sep (c # cs) =
     (if c = sep then [] # split_on sep cs
      else (case split_on sep cs of
              piece # pieces \<Rightarrow> (c # piece) # pieces
            | [] \<Rightarrow> [[c]]))"

text \<open>White space of the language in the range of \<^typ>\<open>char\<close>: TAB, LF, VT, FF, CR,
  SP and NBSP.\<close>

definition isWhiteSpace :: "char \<Rightarrow> bool" where
  "isWhiteSpace c =
     (c \<in> set [CHR 0x09, CHR 0x0A, CHR 0x0B, CHR 0x0C, CHR 0x0D, CHR 0x20, CHR 0xA0])"

definition trim :: "string \<Rightarrow> string" where
  "trim s = rev (dropWhile isWhiteSpace (rev (dropWhile isWhiteSpace s)))"

definition lowerChar :: "char \<Rightarrow> char" where
  "lowerChar c =
     (let n = (of_char c :: nat)
      in if (65 \<le> n \<and> n \<le> 90) \<or> (192 \<le> n \<and> n \<le> 214) \<or> (216 \<le> n \<and> n \<le> 222)
         then char_of (n + 32) else c)"

definition toLowerCase :: "string \<Rightarrow> string" where
  "toLowerCase s = map lowerChar s"

section \<open>Data model\<close>

text \<open>
  The declarations of \<open>Scene\<close> and \<open>YoutubeUploadPayload\<close> are in \<open>lib/types\<close>, which is
  not among the sources; the fields here are those of the object literals that
  \<open>createScene\<close> and \<open>initialYoutubeForm\<close> build.
\<close>

text \<open>A scene of the storyboard. \<open>duration\<close> is a number of seconds, kept as an integer;
  the optional \<open>emphasis\<close> is \<open>None\<close> when the field is undefined.\<close>

record Scene =
  id_scene :: string
  title_scene :: string
  narration :: string
  duration :: int
  gradient :: "string \<times> string"
  emphasis :: "string option"

text \<open>The publish form: the upload payload's fields and the optional \<open>status\<close>.
  At run time \<open>privacyStatus\<close> holds whatever string was stored, so it is a string here.\<close>

record YoutubeFormState =
  title :: string
  description :: string
  tags :: "string list"
  privacyStatus :: string
  clientId :: string
  clientSecret :: string
  refreshToken :: string
  status :: "string option"

section \<open>Constants and scene construction\<close>

definition gradientOptions :: "(string \<times> string \<times> string) list" where
  "gradientOptions =
     [(''Sky Surge'', ''#2563eb'', ''#9333ea''),
      (''Sunset Glow'', ''#f97316'', ''#f43f5e''),
      (''Aurora Mist'', ''#22d3ee'', ''#6366f1''),
      (''Forest Haze'', ''#0ea5e9'', ''#22c55e''),
      (''Neon Bloom'', ''#facc15'', ''#ec4899''),
      (''Deep Space'', ''#0f172a'', ''#312e81'')]"

definition defaultTopic :: string where
  "defaultTopic = ''Automating YouTube Videos with AI Assistants''"

definition minDuration :: int where
  "minDuration = 4"

definition maxDuration :: int where
  "maxDuration = 20"

definition defaultDescription :: "string \<Rightarrow> string" where
  \<open>defaultDescription topic =
     ''Explore how to build an automated pipeline for YouTube videos around "'' @ topic @
     ''". This guide shows how to script, assemble, and ship production-ready content without manual editing.''\<close>

text \<open>
  \<open>createScene\<close> draws two random values: the identifier from \<open>makeId()\<close> and, when no
  gradient is passed, the palette index \<open>Math.floor(Math.random() * 6)\<close>, which is one of
  0..5. Both draws are arguments of the model: \<open>newId\<close> and \<open>pick\<close>.
\<close>

definition createScene :: "string \<times> nat \<Rightarrow> string \<Rightarrow> string \<Rightarrow> string option \<Rightarrow> Scene" where
  "createScene draw ttl narr emph =
     \<lparr> id_scene = fst draw,
       title_scene = ttl,
       narration = narr,
       duration = 6,
       gradient = snd (gradientOptions ! snd draw),
       emphasis = emph \<rparr>"

text \<open>The six scenes of a topic; \<open>draws k\<close> is the pair of random draws of the k-th
  call of \<open>createScene\<close>. \<open>topic.trim() || defaultTopic\<close> takes the default when the
  trimmed topic is the empty string.\<close>

definition buildScenesFromTopic :: "(nat \<Rightarrow> string \<times> nat) \<Rightarrow> string \<Rightarrow> Scene list" where
  "buildScenesFromTopic draws topic =
     (let focus = (if trim topic = [] then defaultTopic else trim topic) in
      [createScene (draws 0)
         ''Hook''
         (''Why spend days editing when '' @ focus @
          '' lets you storyboard, narrate, and publish while you sleep?'')
         (Some ''Promise: by the end you'll have a reusable autopilot.''),
       createScene (draws 1)
         ''System Overview''
         ''We break down the automated studio into three loops: ideation, production, and publishing. Each loop is orchestrated by workflows that watch for new ideas then generate finished episodes.''
         (Some ''Visualize the pipeline as an assembly line from prompt to publish.''),
       createScene (draws 2)
         ''Asset Generation''
         ''Scripts, narration, and visuals are produced through composable agents. We chunk the narrative, batch-render slides, and synthesize voice overs so that the heavy lifting is done without editors.''
         (Some ''Tip: reuse templates per content pillar to stay on brand.''),
       createScene (draws 3)
         ''Video Assembly''
         ''Slides and audio are merged with FFmpeg on-demand, yielding high quality MP4 files ready for upload. Effects like zooms or overlays can be added through programmable filters.''
         (Some ''Result: deterministic renders with predictable timing.''),
       createScene (draws 4)
         ''Deployment''
         ''Finally the pipeline pushes metadata, thumbnails, and the compiled video to YouTube through their API. Schedule, tag, and publish in a single request while analytics feeds future iterations.''
         (Some ''Close with a call-to-action that matches your funnel.''),
       createScene (draws 5)
         ''Call To Action''
         (''Start automating your '' @ toLowerCase focus @
          '' today and reinvest saved hours into strategy and community.'')
         (Some ''Subscribe for more build logs and automation recipes.'')])"

definition initialYoutubeForm :: "string \<Rightarrow> YoutubeFormState" where
  "initialYoutubeForm topic =
     \<lparr> title = topic,
       description = defaultDescription topic,
       tags = [''automation'', ''youtube'', ''ai workflow''],
       privacyStatus = ''private'',
       clientId = [],
       clientSecret = [],
       refreshToken = [],
       status = Some [] \<rparr>"

text \<open>\<open>!!s\<close> on a string is true exactly when the string is not empty.\<close>

definition isYoutubeFormValid :: "YoutubeFormState \<Rightarrow> bool \<Rightarrow> bool" where
  "isYoutubeFormValid form hasVideo =
     (hasVideo \<and> clientId form \<noteq> [] \<and> clientSecret form \<noteq> [] \<and> refreshToken form \<noteq> []
      \<and> title form \<noteq> [] \<and> description form \<noteq> [])"

text \<open>\<open>scenes.reduce((sum, scene) => sum + Math.max(scene.duration, minDuration), 0)\<close>:
  a left fold from 0.\<close>

definition totalRuntime :: "Scene list \<Rightarrow> int" where
  "totalRuntime scenes = foldl (\<lambda>sum scene. sum + max (duration scene) minDuration) 0 scenes"

section \<open>Page state and its handlers\<close>

type_synonym blob = "8 word list"

record UploadResult =
  success :: bool
  message :: string
  url :: "string option"

text \<open>The state cells of the page component (one field per \<open>useState\<close>).\<close>

record PageState =
  topic :: string
  scenes :: "Scene list"
  backgroundAudio :: "blob option"
  videoUrl :: "string option"
  videoBlob :: "blob option"
  youtubeForm :: YoutubeFormState
  isUploading :: bool
  uploadResult :: "UploadResult option"

definition regenerateScenes :: "(nat \<Rightarrow> string \<times> nat) \<Rightarrow> PageState \<Rightarrow> PageState" where
  "regenerateScenes draws st =
     st\<lparr> scenes := buildScenesFromTopic draws (topic st),
         youtubeForm := initialYoutubeForm (topic st) \<rparr>"

text \<open>The updater passed to \<open>setScenes\<close> by \<open>handleDuplicateScene(scene)\<close>; \<open>newId\<close> is
  the value of \<open>makeId()\<close>.\<close>

definition handleDuplicateScene :: "string \<Rightarrow> Scene \<Rightarrow> Scene list \<Rightarrow> Scene list" where
  "handleDuplicateScene newId scene prev =
     prev @ [scene\<lparr> id_scene := newId, title_scene := title_scene scene @ '' (extended)'' \<rparr>]"

text \<open>The keys of the form state.\<close>

datatype FormKey =
  KTitle | KDescription | KTags | KPrivacyStatus | KClientId | KClientSecret
  | KRefreshToken | KStatus

text \<open>
  The updater passed to \<open>setYoutubeForm\<close> by \<open>handleYoutubeChange(key, value)\<close>. The last
  branch is \<open>{ ...prev, [key]: value }\<close>; the key \<open>tags\<close> never reaches it, the first branch
  having returned.
\<close>

definition handleYoutubeChange :: "FormKey \<Rightarrow> string \<Rightarrow> YoutubeFormState \<Rightarrow> YoutubeFormState" where
  "handleYoutubeChange key val prev =
     (if key = KTags
      then prev\<lparr> tags := filter (\<lambda>tag. tag \<noteq> []) (map trim (split_on (CHR '','') val)) \<rparr>
      else if key = KPrivacyStatus \<and>
              (val = ''public'' \<or> val = ''private'' \<or> val = ''unlisted'')
      then prev\<lparr> privacyStatus := val \<rparr>
      else (case key of
              KTitle \<Rightarrow> prev\<lparr> title := val \<rparr>
            | KDescription \<Rightarrow> prev\<lparr> description := val \<rparr>
            | KTags \<Rightarrow> prev
            | KPrivacyStatus \<Rightarrow> prev\<lparr> privacyStatus := val \<rparr>
            | KClientId \<Rightarrow> prev\<lparr> clientId := val \<rparr>
            | KClientSecret \<Rightarrow> prev\<lparr> clientSecret := val \<rparr>
            | KRefreshToken \<Rightarrow> prev\<lparr> refreshToken := val \<rparr>
            | KStatus \<Rightarrow> prev\<lparr> status := Some val \<rparr>))"

section \<open>Thrown values and the wire format of the upload route\<close>

text \<open>A thrown value: an \<open>Error\<close> with its message, or anything else.\<close>

datatype thrown = Error string | NotAnError string

text \<open>\<open>error instanceof Error ? error.message : fallback\<close>\<close>

fun messageOr :: "string \<Rightarrow> thrown \<Rightarrow> string" where
  "messageOr fallback (Error msg) = msg"
| "messageOr fallback (NotAnError _) = fallback"

text \<open>The JSON bodies the upload route answers with: \<open>{ error }\<close> or
  \<open>{ videoId, videoUrl }\<close> (an undefined member is left out).\<close>

datatype ResponseBody =
  ErrorBody string
  | UploadBody "string option" "string option"

record HttpResponse =
  httpStatus :: nat
  httpBody :: ResponseBody

section \<open>Rendering\<close>

record Composition =
  scenes_c :: "Scene list"
  width :: nat
  height :: nat
  fps :: nat
  backgroundAudio_c :: "blob option"

record RenderResult =
  url_r :: string
  blob_r :: blob

record UploadPayload =
  form_p :: YoutubeFormState
  videoBase64_p :: string

text \<open>
  What an asynchronous handler does, in program order: calls of the state setters, calls
  of the outside world (the composer's \<open>generate\<close>, \<open>FileReader\<close>, \<open>fetch\<close>) and calls of
  \<open>alert\<close>, \<open>console.error\<close> and \<open>event.preventDefault\<close>.
\<close>

datatype Action =
  SetVideoUrl "string option"
  | SetVideoBlob "blob option"
  | SetIsUploading bool
  | SetUploadResult "UploadResult option"
  | Generate Composition
  | ReadAsDataURL blob
  | Fetch string UploadPayload
  | Alert string
  | ConsoleError thrown
  | PreventDefault

fun perform :: "PageState \<Rightarrow> Action \<Rightarrow> PageState" where
  "perform st (SetVideoUrl v) = st\<lparr> videoUrl := v \<rparr>"
| "perform st (SetVideoBlob v) = st\<lparr> videoBlob := v \<rparr>"
| "perform st (SetIsUploading v) = st\<lparr> isUploading := v \<rparr>"
| "perform st (SetUploadResult v) = st\<lparr> uploadResult := v \<rparr>"
| "perform st _ = st"

definition run :: "Action list \<Rightarrow> PageState \<Rightarrow> PageState" where
  "run acts st = foldl perform st acts"

text \<open>\<open>beginGeneration\<close>; \<open>generate\<close> is the composer: it resolves to a result or
  rejects with a thrown value.\<close>

definition beginGeneration ::
  "(Composition \<Rightarrow> thrown + RenderResult) \<Rightarrow> PageState \<Rightarrow> Action list" where
  "beginGeneration generate st =
     (let composition =
            \<lparr> scenes_c = scenes st, width = 1280, height = 720, fps = 30,
              backgroundAudio_c = backgroundAudio st \<rparr>
      in [SetVideoUrl None, SetVideoBlob None, Generate composition] @
         (case generate composition of
            Inr result \<Rightarrow> [SetVideoUrl (Some (url_r result)), SetVideoBlob (Some (blob_r result))]
          | Inl err \<Rightarrow>
              [ConsoleError err, Alert ''Video rendering failed. Check console for details.'']))"

section \<open>Publishing from the page\<close>

text \<open>
  \<open>blobToBase64\<close>: \<open>readAsDataURL\<close> is the file reader, giving the data URL or the
  reader's error. The payload is \<open>result.split(",")[1]\<close>; an undefined or empty payload
  rejects.
\<close>

definition blobToBase64 :: "(blob \<Rightarrow> thrown + string) \<Rightarrow> blob \<Rightarrow> thrown + string" where
  "blobToBase64 readAsDataURL b =
     (case readAsDataURL b of
        Inl err \<Rightarrow> Inl err
      | Inr result \<Rightarrow>
          (case split_on (CHR '','') result of
             _ # payload # _ \<Rightarrow>
               if payload = [] then Inl (Error ''Failed to encode video payload.'')
               else Inr payload
           | _ \<Rightarrow> Inl (Error ''Failed to encode video payload.'')))"

text \<open>The answer of \<open>fetch\<close> as the handler reads it: \<open>response.ok\<close> and the body that
  \<open>response.json()\<close> resolves to (or the value it rejects with).\<close>

record FetchResponse =
  ok :: bool
  json :: "thrown + ResponseBody"

record Browser =
  readAsDataURL :: "blob \<Rightarrow> thrown + string"
  fetch :: "string \<Rightarrow> UploadPayload \<Rightarrow> thrown + FetchResponse"

text \<open>The \<open>catch\<close> block of \<open>submitYoutubeUpload\<close>.\<close>

definition uploadFailed :: "thrown \<Rightarrow> Action" where
  "uploadFailed err =
     SetUploadResult
       (Some \<lparr> success = False, message = messageOr ''YouTube upload failed.'' err, url = None \<rparr>)"

text \<open>The \<open>try\<close> block of \<open>submitYoutubeUpload\<close>, with its \<open>catch\<close>.\<close>

definition tryUpload :: "Browser \<Rightarrow> PageState \<Rightarrow> blob \<Rightarrow> Action list" where
  "tryUpload br st vb =
     ReadAsDataURL vb #
     (case blobToBase64 (readAsDataURL br) vb of
        Inl err \<Rightarrow> [uploadFailed err]
      | Inr b64 \<Rightarrow>
          (let payload = \<lparr> form_p = youtubeForm st, videoBase64_p = b64 \<rparr>
           in Fetch ''/api/youtube/upload'' payload #
              (case fetch br ''/api/youtube/upload'' payload of
                 Inl err \<Rightarrow> [uploadFailed err]
               | Inr response \<Rightarrow>
                   (case json response of
                      Inl err \<Rightarrow> [uploadFailed err]
                    | Inr body \<Rightarrow>
                        if \<not> ok response
                        then [uploadFailed
                                (Error (case body of
                                          ErrorBody msg \<Rightarrow> msg
                                        | UploadBody _ _ \<Rightarrow> ''Unable to upload video.''))]
                        else [SetUploadResult
                                (Some \<lparr> success = True,
                                        message = ''Video uploaded successfully.'',
                                        url = (case body of
                                                 ErrorBody _ \<Rightarrow> None
                                               | UploadBody _ u \<Rightarrow> u) \<rparr>)]))))"

definition submitYoutubeUpload :: "Browser \<Rightarrow> PageState \<Rightarrow> Action list" where
  "submitYoutubeUpload br st =
     PreventDefault #
     (case videoBlob st of
        None \<Rightarrow> [Alert ''Generate a video first.'']
      | Some vb \<Rightarrow>
          [SetIsUploading True, SetUploadResult None] @ tryUpload br st vb @
          [SetIsUploading False])"

section \<open>The upload route\<close>

text \<open>A parsed JSON document. A number is kept as an integer: the route only tests
  numbers for being zero. An object is its members in order, the first binding of a key
  being the one read.\<close>

datatype JsonValue =
  JNull
  | JBool bool
  | JNum int
  | JStr string
  | JArr "JsonValue list"
  | JObj "(string \<times> JsonValue) list"

text \<open>\<open>data.key\<close> for one of the keys of the request: \<open>None\<close> is \<open>undefined\<close>.\<close>

fun getMember :: "JsonValue \<Rightarrow> string \<Rightarrow> JsonValue option" where
  "getMember (JObj kvs) key = map_of kvs key"
| "getMember _ key = None"

text \<open>Truthiness, as \<open>!x\<close> reads it.\<close>

fun truthy :: "JsonValue option \<Rightarrow> bool" where
  "truthy None = False"
| "truthy (Some JNull) = False"
| "truthy (Some (JBool b)) = b"
| "truthy (Some (JNum n)) = (n \<noteq> 0)"
| "truthy (Some (JStr s)) = (s \<noteq> [])"
| "truthy (Some (JArr _)) = True"
| "truthy (Some (JObj _)) = True"

text \<open>\<open>typeof data === "object"\<close>\<close>

fun typeofObject :: "JsonValue \<Rightarrow> bool" where
  "typeofObject JNull = True"
| "typeofObject (JArr _) = True"
| "typeofObject (JObj _) = True"
| "typeofObject _ = False"

text \<open>The request after \<open>parseBody\<close>. The body is cast, not converted, so a member holds
  whatever JSON value was sent.\<close>

record UploadRequest =
  videoBase64 :: "JsonValue option"
  title_u :: "JsonValue option"
  description_u :: "JsonValue option"
  tags_u :: "JsonValue option"
  privacyStatus_u :: "JsonValue option"
  clientId_u :: "JsonValue option"
  clientSecret_u :: "JsonValue option"
  refreshToken_u :: "JsonValue option"

definition MAX_UPLOAD_SIZE_MB :: nat where
  "MAX_UPLOAD_SIZE_MB = 256"

text \<open>A destructuring default applies to an undefined member only.\<close>

definition orDefault :: "JsonValue \<Rightarrow> JsonValue option \<Rightarrow> JsonValue option" where
  "orDefault d v = (case v of None \<Rightarrow> Some d | Some x \<Rightarrow> Some x)"

definition parseBody :: "JsonValue \<Rightarrow> thrown + UploadRequest" where
  "parseBody data =
     (if \<not> truthy (Some data) \<or> \<not> typeofObject data then Inl (Error ''Invalid payload.'')
      else if \<not> truthy (getMember data ''videoBase64'') then Inl (Error ''Missing video payload.'')
      else if \<not> truthy (getMember data ''title'') then Inl (Error ''Missing title.'')
      else if \<not> truthy (getMember data ''description'') then Inl (Error ''Missing description.'')
      else if \<not> truthy (getMember data ''clientId'') \<or> \<not> truthy (getMember data ''clientSecret'')
              \<or> \<not> truthy (getMember data ''refreshToken'')
      then Inl (Error ''OAuth credentials are required.'')
      else Inr \<lparr> videoBase64 = getMember data ''videoBase64'',
                 title_u = getMember data ''title'',
                 description_u = getMember data ''description'',
                 tags_u = orDefault (JArr []) (getMember data ''tags''),
                 privacyStatus_u = orDefault (JStr ''private'') (getMember data ''privacyStatus''),
                 clientId_u = getMember data ''clientId'',
                 clientSecret_u = getMember data ''clientSecret'',
                 refreshToken_u = getMember data ''refreshToken'' \<rparr>)"

text \<open>
  \<open>decodeVideo\<close>; \<open>bufferFrom\<close> is \<open>Buffer.from(_, "base64")\<close> of the platform, which gives
  the bytes or throws. The size in MB is the quotient \<open>byteLength / (1024 * 1024)\<close>.
\<close>

definition decodeVideo ::
  "(JsonValue option \<Rightarrow> thrown + blob) \<Rightarrow> JsonValue option \<Rightarrow> thrown + blob" where
  "decodeVideo bufferFrom base64 =
     (case bufferFrom base64 of
        Inl err \<Rightarrow> Inl err
      | Inr buffer \<Rightarrow>
          (let sizeMb = real (length buffer) / (1024 * 1024)
           in if sizeMb > real MAX_UPLOAD_SIZE_MB
              then Inl (Error ''Video too large. Limit is 256MB.'')
              else Inr buffer))"

text \<open>The call of \<open>youtube.videos.insert\<close>, with the credentials its client was built
  from.\<close>

record InsertCall =
  oauthClientId :: "JsonValue option"
  oauthClientSecret :: "JsonValue option"
  oauthRefreshToken :: "JsonValue option"
  snippetTitle :: "JsonValue option"
  snippetDescription :: "JsonValue option"
  snippetTags :: "JsonValue option"
  statusPrivacy :: JsonValue
  mediaBody :: blob

record Platform =
  bufferFrom :: "JsonValue option \<Rightarrow> thrown + blob"
  videosInsert :: "InsertCall \<Rightarrow> thrown + string option"

text \<open>\<open>payload.tags?.slice(0, 500)\<close>: undefined on null, the first 500 elements of an
  array or code units of a string, and a type error on anything else (the engine words
  its message).\<close>

fun sliceTags :: "JsonValue option \<Rightarrow> thrown + JsonValue option" where
  "sliceTags None = Inr None"
| "sliceTags (Some JNull) = Inr None"
| "sliceTags (Some (JArr xs)) = Inr (Some (JArr (take 500 xs)))"
| "sliceTags (Some (JStr s)) = Inr (Some (JStr (take 500 s)))"
| "sliceTags (Some _) = Inl (Error ''payload.tags?.slice is not a function'')"

text \<open>\<open>payload.privacyStatus ?? "private"\<close>\<close>

fun privacyOrPrivate :: "JsonValue option \<Rightarrow> JsonValue" where
  "privacyOrPrivate None = JStr ''private''"
| "privacyOrPrivate (Some JNull) = JStr ''private''"
| "privacyOrPrivate (Some v) = v"

text \<open>What one request does: the answer, and the calls of the upload service it made.\<close>

record Served =
  response :: HttpResponse
  inserts :: "InsertCall list"

text \<open>The \<open>catch\<close> block of \<open>POST\<close>.\<close>

definition badRequest :: "thrown \<Rightarrow> HttpResponse" where
  "badRequest err =
     \<lparr> httpStatus = 400, httpBody = ErrorBody (messageOr ''Unknown error occurred.'' err) \<rparr>"

text \<open>\<open>POST\<close>; \<open>requestJson\<close> is what \<open>request.json()\<close> resolves to or rejects with.\<close>

definition POST :: "Platform \<Rightarrow> thrown + JsonValue \<Rightarrow> Served" where
  "POST pf requestJson =
     (case requestJson of
        Inl err \<Rightarrow> \<lparr> response = badRequest err, inserts = [] \<rparr>
      | Inr data \<Rightarrow>
     (case parseBody data of
        Inl err \<Rightarrow> \<lparr> response = badRequest err, inserts = [] \<rparr>
      | Inr payload \<Rightarrow>
     (case decodeVideo (bufferFrom pf) (videoBase64 payload) of
        Inl err \<Rightarrow> \<lparr> response = badRequest err, inserts = [] \<rparr>
      | Inr videoBuffer \<Rightarrow>
     (case sliceTags (tags_u payload) of
        Inl err \<Rightarrow> \<lparr> response = badRequest err, inserts = [] \<rparr>
      | Inr tgs \<Rightarrow>
          (let call = \<lparr> oauthClientId = clientId_u payload,
                        oauthClientSecret = clientSecret_u payload,
                        oauthRefreshToken = refreshToken_u payload,
                        snippetTitle = title_u payload,
                        snippetDescription = description_u payload,
                        snippetTags = tgs,
                        statusPrivacy = privacyOrPrivate (privacyStatus_u payload),
                        mediaBody = videoBuffer \<rparr>
           in (case videosInsert pf call of
                 Inl err \<Rightarrow> \<lparr> response = badRequest err, inserts = [call] \<rparr>
               | Inr videoId \<Rightarrow>
                   \<lparr> response =
                       \<lparr> httpStatus = 200,
                         httpBody =
                           UploadBody videoId
                             (case videoId of
                                None \<Rightarrow> None
                              | Some v \<Rightarrow>
                                  if v = [] then None
                                  else Some (''https://www.youtube.com/watch?v='' @ v)) \<rparr>,
                     inserts = [call] \<rparr>))))))"

section \<open>Auxiliary definitions for the statements\<close>

text \<open>The states a handler passes through: the state before each action and the final
  one.\<close>

fun states :: "PageState \<Rightarrow> Action list \<Rightarrow> PageState list" where
  "states st [] = [st]"
| "states st (a # as) = st # states (perform st a) as"

text \<open>\<open>pieces.join(sep)\<close> with a one-character separator, to state what \<open>split_on\<close>
  computes.\<close>

fun join_on :: "char \<Rightarrow> string list \<Rightarrow> string" where
  "join_on sep [] = []"
| "join_on sep [p] = p"
| "join_on sep (p # q # ps) = p @ sep # join_on sep (q # ps)"

subsection \<open>Concrete inputs\<close>

definition exampleScene :: "string \<Rightarrow> int \<Rightarrow> Scene" where
  "exampleScene i d =
     \<lparr> id_scene = i, title_scene = ''Hook'', narration = ''Why?'', duration = d,
       gradient = (''#2563eb'', ''#9333ea''), emphasis = None \<rparr>"

text \<open>A page with a rendered video and the form as seeded: the credentials are empty.\<close>

definition exampleState :: PageState where
  "exampleState =
     \<lparr> topic = defaultTopic,
       scenes = [exampleScene ''s1'' 6],
       backgroundAudio = None,
       videoUrl = Some ''blob:video-1'',
       videoBlob = Some [1, 2, 3],
       youtubeForm = initialYoutubeForm defaultTopic,
       isUploading = False,
       uploadResult = None \<rparr>"

text \<open>A browser whose reader encodes the blob and whose server answers as the route does
  to a request without credentials.\<close>

definition exampleBrowser :: Browser where
  "exampleBrowser =
     \<lparr> readAsDataURL = (\<lambda>b. Inr ''data:video/mp4;base64,AQID''),
       fetch = (\<lambda>u p. Inr \<lparr> ok = False,
                              json = Inr (ErrorBody ''OAuth credentials are required.'') \<rparr>) \<rparr>"

text \<open>A buffer one byte over the limit.\<close>

definition bigBuffer :: blob where
  "bigBuffer = replicate (256 * 1024 * 1024 + 1) 0"

definition examplePlatform :: Platform where
  "examplePlatform =
     \<lparr> bufferFrom = (\<lambda>v. Inr bigBuffer),
       videosInsert = (\<lambda>c. Inr (Some ''abc123'')) \<rparr>"

text \<open>A request body without \<open>refreshToken\<close>, and a complete one.\<close>

definition exampleMissing :: JsonValue where
  "exampleMissing =
     JObj [(''videoBase64'', JStr ''AQID''), (''title'', JStr ''T''),
           (''description'', JStr ''D''), (''clientId'', JStr ''id''),
           (''clientSecret'', JStr ''secret'')]"

definition exampleComplete :: JsonValue where
  "exampleComplete =
     JObj [(''videoBase64'', JStr ''AQID''), (''title'', JStr ''T''),
           (''description'', JStr ''D''), (''clientId'', JStr ''id''),
           (''clientSecret'', JStr ''secret''), (''refreshToken'', JStr ''token'')]"

definition examplePayload :: UploadRequest where
  "examplePayload =
     \<lparr> videoBase64 = Some (JStr ''AQID''), title_u = Some (JStr ''T''),
       description_u = Some (JStr ''D''), tags_u = Some (JArr []),
       privacyStatus_u = Some (JStr ''private''), clientId_u = Some (JStr ''id''),
       clientSecret_u = Some (JStr ''secret''), refreshToken_u = Some (JStr ''token'') \<rparr>"

section \<open>The string operations\<close>

lemma split_on_not_Nil: "split_on sep s \<noteq> []"
  by (induction s) (auto split: list.split)

lemma split_on_no_sep: "p \<in> set (split_on sep s) \<Longrightarrow> sep \<notin> set p"
  by (induction s arbitrary: p) (auto split: if_splits list.splits)

lemma join_on_Cons: "ps \<noteq> [] \<Longrightarrow> join_on sep (p # ps) = p @ sep # join_on sep ps"
  by (cases ps) simp_all

text \<open>Joining the pieces with the separator gives the string back.\<close>

lemma join_on_split_on: "join_on sep (split_on sep s) = s"
proof (induction s)
  case Nil
  show ?case by simp
next
  case (Cons c cs)
  show ?case
  proof (cases "c = sep")
    case True
    with Cons show ?thesis by (simp add: join_on_Cons split_on_not_Nil)
  next
    case False
    obtain p ps where r: "split_on sep cs = p # ps"
      using split_on_not_Nil by (cases "split_on sep cs") auto
    with Cons False show ?thesis by (cases ps) auto
  qed
qed

lemma dropWhile_all_iff: "(\<forall>x\<in>set (dropWhile P xs). P x) \<longleftrightarrow> (\<forall>x\<in>set xs. P x)"
  by (induction xs) auto

text \<open>The trimmed string is empty exactly for a string of white space (the empty one
  included).\<close>

lemma trim_empty_iff: "trim s = [] \<longleftrightarrow> list_all isWhiteSpace s"
  unfolding trim_def
  by (simp add: dropWhile_eq_Nil_conv list_all_iff dropWhile_all_iff)

lemma last_dropWhile: "dropWhile P xs \<noteq> [] \<Longrightarrow> last (dropWhile P xs) = last xs"
  by (induction xs) (auto split: if_splits)

lemma trim_hd:
  assumes "trim s \<noteq> []"
  shows "\<not> isWhiteSpace (hd (trim s))"
proof -
  let ?ys = "dropWhile isWhiteSpace s"
  let ?zs = "dropWhile isWhiteSpace (rev ?ys)"
  from assms have zs: "?zs \<noteq> []" by (simp add: trim_def)
  have ys: "?ys \<noteq> []"
  proof
    assume e: "?ys = []"
    have "?zs = []" unfolding e by simp
    with zs show False by contradiction
  qed
  have "hd (trim s) = last ?zs" using zs by (simp add: trim_def hd_rev)
  also have "\<dots> = last (rev ?ys)" using zs by (rule last_dropWhile)
  also have "\<dots> = hd ?ys" using ys by (simp add: last_rev)
  finally show ?thesis using hd_dropWhile [OF ys] by simp
qed

lemma trim_last:
  assumes "trim s \<noteq> []"
  shows "\<not> isWhiteSpace (last (trim s))"
proof -
  let ?zs = "dropWhile isWhiteSpace (rev (dropWhile isWhiteSpace s))"
  from assms have zs: "?zs \<noteq> []" by (simp add: trim_def)
  then have "last (trim s) = hd ?zs" by (simp add: trim_def last_rev)
  with hd_dropWhile [OF zs] show ?thesis by simp
qed

lemma toLowerCase_example: "toLowerCase ''Test Topic'' = ''test topic''"
  by code_simp

section \<open>Scene store\<close>

lemma foldl_add_sum: "foldl (\<lambda>sum x. sum + f x) a xs = a + sum_list (map f xs)" for a :: int
  by (induction xs arbitrary: a) simp_all

text \<open>
  C4. For every list of scenes the total runtime is the sum over the scenes of
  \<open>max (duration scene) minDuration\<close>, with \<open>minDuration = 4\<close>; for scenes of durations
  4, 6, 20 and 2 it is 34.
\<close>

theorem totalRuntime_sum_of_floored_durations:
  "totalRuntime scs = (\<Sum>scene\<leftarrow>scs. max (duration scene) minDuration) \<and>
   minDuration = 4 \<and>
   totalRuntime (map (\<lambda>d. sc\<lparr> duration := d \<rparr>) [4, 6, 20, 2]) = 34"
  by (simp add: totalRuntime_def foldl_add_sum minDuration_def)

text \<open>
  C9. For every topic (and whatever the random draws are) seeding gives exactly six
  scenes, each of duration 6, so the total runtime is 36. The topic is used trimmed, and
  a topic of white space only (the empty topic included) is replaced by the default
  topic: the first narration embeds that text, the last one its lower-case form.
\<close>

theorem buildScenesFromTopic_six_scenes:
  "length (buildScenesFromTopic draws tp) = 6 \<and>
   map duration (buildScenesFromTopic draws tp) = [6, 6, 6, 6, 6, 6] \<and>
   totalRuntime (buildScenesFromTopic draws tp) = 36 \<and>
   narration (hd (buildScenesFromTopic draws tp)) =
     ''Why spend days editing when '' @
     (if list_all isWhiteSpace tp then defaultTopic else trim tp) @
     '' lets you storyboard, narrate, and publish while you sleep?'' \<and>
   narration (last (buildScenesFromTopic draws tp)) =
     ''Start automating your '' @
     toLowerCase (if list_all isWhiteSpace tp then defaultTopic else trim tp) @
     '' today and reinvest saved hours into strategy and community.''"
  by (simp add: buildScenesFromTopic_def Let_def createScene_def totalRuntime_def minDuration_def
      trim_empty_iff)

lemma buildScenesFromTopic_trims:
  "narration (last (buildScenesFromTopic draws ''  Test Topic '')) =
     ''Start automating your test topic today and reinvest saved hours into strategy and community.''"
  by code_simp

lemma buildScenesFromTopic_blank:
  "narration (hd (buildScenesFromTopic draws '' '')) =
     ''Why spend days editing when Automating YouTube Videos with AI Assistants lets you storyboard, narrate, and publish while you sleep?''"
  by (simp add: buildScenesFromTopic_def trim_def isWhiteSpace_def createScene_def defaultTopic_def)

text \<open>
  C10. For every page state, regenerating the scenes rebuilds the scene list from the
  topic and replaces the whole publish form by the defaults of the topic: the topic as
  title, the templated description, the fixed tags, \<open>private\<close>, and empty \<open>clientId\<close>,
  \<open>clientSecret\<close> and \<open>refreshToken\<close>, whatever the form held before. Nothing else of
  the page changes.
\<close>

theorem regenerateScenes_resets_form:
  "youtubeForm (regenerateScenes draws st) =
     \<lparr> title = topic st,
       description = defaultDescription (topic st),
       tags = [''automation'', ''youtube'', ''ai workflow''],
       privacyStatus = ''private'',
       clientId = [], clientSecret = [], refreshToken = [],
       status = Some [] \<rparr> \<and>
   scenes (regenerateScenes draws st) = buildScenesFromTopic draws (topic st) \<and>
   regenerateScenes draws st =
     st\<lparr> scenes := scenes (regenerateScenes draws st),
         youtubeForm := youtubeForm (regenerateScenes draws st) \<rparr>"
  by (simp add: regenerateScenes_def initialYoutubeForm_def)

text \<open>
  C3, as the code has it. Duplication takes the scene itself, not an identifier, and
  looks nothing up: for every store it appends exactly one clone of the scene it is
  given (new identifier, title marked \<open>(extended)\<close>) after the scenes already there,
  whether or not the store holds a scene of that identifier. No error is raised.
\<close>

theorem handleDuplicateScene_always_appends:
  "handleDuplicateScene newId sc prev =
     prev @ [sc\<lparr> id_scene := newId, title_scene := title_scene sc @ '' (extended)'' \<rparr>] \<and>
   length (handleDuplicateScene newId sc prev) = Suc (length prev) \<and>
   take (length prev) (handleDuplicateScene newId sc prev) = prev"
  by (simp add: handleDuplicateScene_def)

text \<open>
  C3 as stated fails: the store of the example page holds the scene \<open>s1\<close> only, and
  duplicating a scene of identifier \<open>s2\<close> changes the store.
\<close>

theorem handleDuplicateScene_absent_id_appends:
  "id_scene (exampleScene ''s2'' 6) \<notin> id_scene ` set (scenes exampleState) \<and>
   handleDuplicateScene ''s3'' (exampleScene ''s2'' 6) (scenes exampleState)
     \<noteq> scenes exampleState"
  by (simp add: exampleState_def exampleScene_def handleDuplicateScene_def)

section \<open>Publish form\<close>

text \<open>
  C5. For every form and every \<open>hasArtifact\<close> the readiness predicate holds exactly when
  \<open>hasArtifact\<close> holds and \<open>clientId\<close>, \<open>clientSecret\<close>, \<open>refreshToken\<close>, \<open>title\<close> and
  \<open>description\<close> are all non-empty strings.
\<close>

theorem isYoutubeFormValid_iff:
  "isYoutubeFormValid form hasArtifact =
     (hasArtifact \<and> 0 < length (clientId form) \<and> 0 < length (clientSecret form) \<and>
      0 < length (refreshToken form) \<and> 0 < length (title form) \<and>
      0 < length (description form))"
  by (simp add: isYoutubeFormValid_def)

text \<open>
  C6. For every raw string written to the tags field, and every form, the stored tags
  are the pieces of the string between commas, each trimmed, the empty ones dropped and
  nothing else removed (duplicates stay); no other field changes. The input
  \<open>a, ,b,b \<close> gives \<open>a\<close>, \<open>b\<close>, \<open>b\<close>.
\<close>

theorem handleYoutubeChange_tags_normalized:
  "handleYoutubeChange KTags v prev =
     prev\<lparr> tags := filter (\<lambda>piece. piece \<noteq> []) (map trim (split_on (CHR '','') v)) \<rparr> \<and>
   [] \<notin> set (tags (handleYoutubeChange KTags v prev)) \<and>
   tags (handleYoutubeChange KTags ''a, ,b,b '' prev) = [''a'', ''b'', ''b'']"
  by (simp add: handleYoutubeChange_def trim_def isWhiteSpace_def)

text \<open>
  C2, the code at the failing input. Updating \<open>privacyStatus\<close> stores the value it is
  given, allowed or not: the guard on the three allowed values returns the same update
  as the branch the other values fall through to. The value \<open>hidden\<close> is stored and
  the form changes.
\<close>

theorem handleYoutubeChange_stores_any_privacyStatus:
  "handleYoutubeChange KPrivacyStatus v prev = prev\<lparr> privacyStatus := v \<rparr> \<and>
   privacyStatus
     (handleYoutubeChange KPrivacyStatus ''hidden'' (initialYoutubeForm ''Test Topic''))
     = ''hidden'' \<and>
   handleYoutubeChange KPrivacyStatus ''hidden'' (initialYoutubeForm ''Test Topic'')
     \<noteq> initialYoutubeForm ''Test Topic''"
  by (simp add: handleYoutubeChange_def initialYoutubeForm_def)

section \<open>Rendering and publishing from the page\<close>

text \<open>
  C8. For every prior page state and every outcome of the composer, the first two
  actions of a new render clear the video URL and the video blob, and the composer is
  called third. Along the states the handler passes through, the prior URL is gone after
  the first action and the prior blob after the second, both before the composer is
  called; from then on each cell is empty or holds the new result, so the page never
  holds more than the one current result.
\<close>

theorem beginGeneration_clears_first:
  "take 3 (beginGeneration g st) =
     [SetVideoUrl None, SetVideoBlob None,
      Generate \<lparr> scenes_c = scenes st, width = 1280, height = 720, fps = 30,
                 backgroundAudio_c = backgroundAudio st \<rparr>] \<and>
   map videoUrl (states st (beginGeneration g st)) =
     (case g \<lparr> scenes_c = scenes st, width = 1280, height = 720, fps = 30,
               backgroundAudio_c = backgroundAudio st \<rparr> of
        Inr result \<Rightarrow> [videoUrl st, None, None, None, Some (url_r result), Some (url_r result)]
      | Inl err \<Rightarrow> [videoUrl st, None, None, None, None, None]) \<and>
   map videoBlob (states st (beginGeneration g st)) =
     (case g \<lparr> scenes_c = scenes st, width = 1280, height = 720, fps = 30,
               backgroundAudio_c = backgroundAudio st \<rparr> of
        Inr result \<Rightarrow> [videoBlob st, videoBlob st, None, None, None, Some (blob_r result)]
      | Inl err \<Rightarrow> [videoBlob st, videoBlob st, None, None, None, None])"
  by (simp add: beginGeneration_def Let_def split: sum.split)

text \<open>
  C1, as the code has it. The submit handler checks the artifact only. With no video
  blob it alerts and stops: no request is sent and the page state is unchanged. With a
  video blob that encodes, it sends the request with the form as it is, whatever the
  title, the description and the credentials hold: they are checked by the disabled
  submit button and by the route, not by the handler, and no \<open>NotReady\<close> failure exists.
\<close>

theorem submitYoutubeUpload_guards_artifact_only:
  "(videoBlob st = None \<longrightarrow>
      submitYoutubeUpload br st = [PreventDefault, Alert ''Generate a video first.''] \<and>
      run (submitYoutubeUpload br st) st = st) \<and>
   (videoBlob st = Some vb \<and> blobToBase64 (readAsDataURL br) vb = Inr b64 \<longrightarrow>
      Fetch ''/api/youtube/upload'' \<lparr> form_p = youtubeForm st, videoBase64_p = b64 \<rparr>
        \<in> set (submitYoutubeUpload br st))"
  by (simp add: submitYoutubeUpload_def tryUpload_def run_def Let_def)

text \<open>Both cases at concrete inputs: the example page without its video blob, and the
  example page.\<close>

theorem submitYoutubeUpload_guards_artifact_only_witness:
  "videoBlob (exampleState\<lparr> videoBlob := None \<rparr>) = None \<and>
   submitYoutubeUpload exampleBrowser (exampleState\<lparr> videoBlob := None \<rparr>) =
     [PreventDefault, Alert ''Generate a video first.''] \<and>
   videoBlob exampleState = Some [1, 2, 3] \<and>
   blobToBase64 (readAsDataURL exampleBrowser) [1, 2, 3] = Inr ''AQID'' \<and>
   Fetch ''/api/youtube/upload''
     \<lparr> form_p = youtubeForm exampleState, videoBase64_p = ''AQID'' \<rparr>
     \<in> set (submitYoutubeUpload exampleBrowser exampleState)"
proof -
  have h1: "videoBlob (exampleState\<lparr> videoBlob := None \<rparr>) = None"
    by simp
  have h2: "videoBlob exampleState = Some [1, 2, 3]"
    by (simp add: exampleState_def)
  have h3: "blobToBase64 (readAsDataURL exampleBrowser) [1, 2, 3] = Inr ''AQID''"
    by (simp add: blobToBase64_def exampleBrowser_def)
  from submitYoutubeUpload_guards_artifact_only
         [of "exampleState\<lparr> videoBlob := None \<rparr>" exampleBrowser] h1
  have a: "submitYoutubeUpload exampleBrowser (exampleState\<lparr> videoBlob := None \<rparr>) =
     [PreventDefault, Alert ''Generate a video first.'']"
    by simp
  from submitYoutubeUpload_guards_artifact_only
         [of exampleState exampleBrowser "[1, 2, 3]" "''AQID''"] h2 h3
  have b: "Fetch ''/api/youtube/upload''
     \<lparr> form_p = youtubeForm exampleState, videoBase64_p = ''AQID'' \<rparr>
     \<in> set (submitYoutubeUpload exampleBrowser exampleState)"
    by simp
  from h1 a h2 h3 b show ?thesis by simp
qed

text \<open>
  C1 as stated fails: on the example page the readiness predicate is false (the
  credentials are empty) and the handler sends the request all the same.
\<close>

theorem submitYoutubeUpload_dispatches_when_not_ready:
  "\<not> isYoutubeFormValid (youtubeForm exampleState) (videoBlob exampleState \<noteq> None) \<and>
   Fetch ''/api/youtube/upload''
     \<lparr> form_p = youtubeForm exampleState, videoBase64_p = ''AQID'' \<rparr>
     \<in> set (submitYoutubeUpload exampleBrowser exampleState)"
  by (simp add: isYoutubeFormValid_def exampleState_def initialYoutubeForm_def
      submitYoutubeUpload_def tryUpload_def blobToBase64_def exampleBrowser_def)

section \<open>The upload route\<close>

lemma parseBody_missing:
  assumes "k \<in> set [''videoBase64'', ''title'', ''description'', ''clientId'', ''clientSecret'',
                    ''refreshToken'']"
    and "getMember data k = None"
  shows "\<exists>m \<in> set [''Invalid payload.'', ''Missing video payload.'', ''Missing title.'',
                   ''Missing description.'', ''OAuth credentials are required.''].
           parseBody data = Inl (Error m)"
  using assms unfolding parseBody_def by auto

lemma POST_missing:
  assumes "k \<in> set [''videoBase64'', ''title'', ''description'', ''clientId'', ''clientSecret'',
                    ''refreshToken'']"
    and "getMember data k = None"
  shows "\<exists>m \<in> set [''Invalid payload.'', ''Missing video payload.'', ''Missing title.'',
                   ''Missing description.'', ''OAuth credentials are required.''].
           POST pf (Inr data) =
             \<lparr> response = \<lparr> httpStatus = 400, httpBody = ErrorBody m \<rparr>, inserts = [] \<rparr>"
proof -
  from parseBody_missing [OF assms] obtain m
    where m: "m \<in> set [''Invalid payload.'', ''Missing video payload.'', ''Missing title.'',
                   ''Missing description.'', ''OAuth credentials are required.'']"
      and p: "parseBody data = Inl (Error m)"
    by blast
  have "POST pf (Inr data) =
          \<lparr> response = \<lparr> httpStatus = 400, httpBody = ErrorBody m \<rparr>, inserts = [] \<rparr>"
    by (simp add: POST_def p badRequest_def)
  with m show ?thesis by blast
qed

text \<open>The quotient \<open>byteLength / (1024 * 1024)\<close> is above 256 exactly when the buffer has
  more than \<open>256 * 1024 * 1024\<close> bytes.\<close>

lemma decodeVideo_too_large:
  assumes "bf v = Inr buffer" and "256 * 1024 * 1024 < length buffer"
  shows "decodeVideo bf v = Inl (Error ''Video too large. Limit is 256MB.'')"
  using assms by (simp add: decodeVideo_def MAX_UPLOAD_SIZE_MB_def Let_def)

lemma decodeVideo_within_limit:
  assumes "bf v = Inr buffer" and "length buffer \<le> 256 * 1024 * 1024"
  shows "decodeVideo bf v = Inr buffer"
  using assms by (simp add: decodeVideo_def MAX_UPLOAD_SIZE_MB_def Let_def)

lemma POST_too_large:
  assumes "parseBody data = Inr payload"
    and "bufferFrom pf (videoBase64 payload) = Inr buffer"
    and "256 * 1024 * 1024 < length buffer"
  shows "POST pf (Inr data) =
           \<lparr> response =
               \<lparr> httpStatus = 400, httpBody = ErrorBody ''Video too large. Limit is 256MB.'' \<rparr>,
             inserts = [] \<rparr>"
  using assms(1)
    decodeVideo_too_large [of "bufferFrom pf" "videoBase64 payload" buffer, OF assms(2,3)]
  by (simp add: POST_def badRequest_def)

lemma length_bigBuffer: "length bigBuffer = 268435457"
  by (simp only: bigBuffer_def length_replicate)

lemma parseBody_exampleComplete: "parseBody exampleComplete = Inr examplePayload"
  by (simp add: parseBody_def exampleComplete_def examplePayload_def orDefault_def)

text \<open>
  C7. For every platform and every request body: when one of \<open>videoBase64\<close>, \<open>title\<close>,
  \<open>description\<close>, \<open>clientId\<close>, \<open>clientSecret\<close>, \<open>refreshToken\<close> is missing from the body,
  the route answers 400 with a body \<open>{ error: message }\<close>, the message being one of the
  route's five validation messages, and does not call the upload service; and when the
  body passes validation and its video decodes to more than 256 MB
  (\<open>256 * 1024 * 1024\<close> bytes), the route answers 400 with the size-limit message and
  does not call the upload service.
\<close>

theorem POST_rejects_missing_and_oversized:
  "(k \<in> set [''videoBase64'', ''title'', ''description'', ''clientId'', ''clientSecret'',
              ''refreshToken''] \<and> getMember data k = None \<longrightarrow>
      httpStatus (response (POST pf (Inr data))) = 400 \<and>
      httpBody (response (POST pf (Inr data))) \<in>
        ErrorBody ` set [''Invalid payload.'', ''Missing video payload.'', ''Missing title.'',
                         ''Missing description.'', ''OAuth credentials are required.''] \<and>
      inserts (POST pf (Inr data)) = []) \<and>
   (parseBody data = Inr payload \<and> bufferFrom pf (videoBase64 payload) = Inr buffer \<and>
    256 * 1024 * 1024 < length buffer \<longrightarrow>
      response (POST pf (Inr data)) =
        \<lparr> httpStatus = 400, httpBody = ErrorBody ''Video too large. Limit is 256MB.'' \<rparr> \<and>
      inserts (POST pf (Inr data)) = [])"
proof (rule conjI)
  show "k \<in> set [''videoBase64'', ''title'', ''description'', ''clientId'', ''clientSecret'',
              ''refreshToken''] \<and> getMember data k = None \<longrightarrow>
      httpStatus (response (POST pf (Inr data))) = 400 \<and>
      httpBody (response (POST pf (Inr data))) \<in>
        ErrorBody ` set [''Invalid payload.'', ''Missing video payload.'', ''Missing title.'',
                         ''Missing description.'', ''OAuth credentials are required.''] \<and>
      inserts (POST pf (Inr data)) = []"
  proof
    assume "k \<in> set [''videoBase64'', ''title'', ''description'', ''clientId'', ''clientSecret'',
              ''refreshToken''] \<and> getMember data k = None"
    then obtain m
      where m: "m \<in> set [''Invalid payload.'', ''Missing video payload.'', ''Missing title.'',
                   ''Missing description.'', ''OAuth credentials are required.'']"
        and p: "POST pf (Inr data) =
                  \<lparr> response = \<lparr> httpStatus = 400, httpBody = ErrorBody m \<rparr>, inserts = [] \<rparr>"
      using POST_missing by blast
    from m show "httpStatus (response (POST pf (Inr data))) = 400 \<and>
      httpBody (response (POST pf (Inr data))) \<in>
        ErrorBody ` set [''Invalid payload.'', ''Missing video payload.'', ''Missing title.'',
                         ''Missing description.'', ''OAuth credentials are required.''] \<and>
      inserts (POST pf (Inr data)) = []"
      by (simp add: p)
  qed
next
  show "parseBody data = Inr payload \<and> bufferFrom pf (videoBase64 payload) = Inr buffer \<and>
    256 * 1024 * 1024 < length buffer \<longrightarrow>
      response (POST pf (Inr data)) =
        \<lparr> httpStatus = 400, httpBody = ErrorBody ''Video too large. Limit is 256MB.'' \<rparr> \<and>
      inserts (POST pf (Inr data)) = []"
    using POST_too_large [of data payload pf buffer] by simp
qed

text \<open>Both cases at concrete inputs: the body without \<open>refreshToken\<close>, and the complete
  body on a platform that decodes it to one byte over the limit.\<close>

theorem POST_rejects_missing_and_oversized_witness:
  "getMember exampleMissing ''refreshToken'' = None \<and>
   response (POST examplePlatform (Inr exampleMissing)) =
     \<lparr> httpStatus = 400, httpBody = ErrorBody ''OAuth credentials are required.'' \<rparr> \<and>
   inserts (POST examplePlatform (Inr exampleMissing)) = [] \<and>
   parseBody exampleComplete = Inr examplePayload \<and>
   bufferFrom examplePlatform (videoBase64 examplePayload) = Inr bigBuffer \<and>
   256 * 1024 * 1024 < length bigBuffer \<and>
   response (POST examplePlatform (Inr exampleComplete)) =
     \<lparr> httpStatus = 400, httpBody = ErrorBody ''Video too large. Limit is 256MB.'' \<rparr> \<and>
   inserts (POST examplePlatform (Inr exampleComplete)) = []"
proof -
  have h1: "getMember exampleMissing ''refreshToken'' = None"
    by (simp add: exampleMissing_def)
  have h2: "256 * 1024 * 1024 < length bigBuffer"
    by (simp add: length_bigBuffer)
  have h3: "bufferFrom examplePlatform (videoBase64 examplePayload) = Inr bigBuffer"
    by (simp add: examplePlatform_def)
  have m: "response (POST examplePlatform (Inr exampleMissing)) =
     \<lparr> httpStatus = 400, httpBody = ErrorBody ''OAuth credentials are required.'' \<rparr>"
    by (simp add: POST_def parseBody_def exampleMissing_def badRequest_def)
  from POST_rejects_missing_and_oversized
         [where k = "''refreshToken''" and data = exampleMissing and pf = examplePlatform
            and payload = examplePayload and buffer = bigBuffer] h1
  have a: "inserts (POST examplePlatform (Inr exampleMissing)) = []"
    by simp
  from POST_rejects_missing_and_oversized
         [where k = "''title''" and data = exampleComplete and pf = examplePlatform
            and payload = examplePayload and buffer = bigBuffer]
       parseBody_exampleComplete h2 h3
  have b: "response (POST examplePlatform (Inr exampleComplete)) =
     \<lparr> httpStatus = 400, httpBody = ErrorBody ''Video too large. Limit is 256MB.'' \<rparr> \<and>
   inserts (POST examplePlatform (Inr exampleComplete)) = []"
    by simp
  from h1 m a parseBody_exampleComplete h3 h2 b show ?thesis by simp
qed

text \<open>An oversized video is answered 400 without a call of the upload service also when
  the body fails validation; the message is then the validation's.\<close>

lemma parseBody_videoBase64:
  "parseBody data = Inr payload \<Longrightarrow> videoBase64 payload = getMember data ''videoBase64''"
  by (auto simp add: parseBody_def split: if_splits)

lemma POST_oversized_always_rejected:
  assumes "bufferFrom pf (getMember data ''videoBase64'') = Inr buffer"
    and "256 * 1024 * 1024 < length buffer"
  shows "httpStatus (response (POST pf (Inr data))) = 400 \<and> inserts (POST pf (Inr data)) = []"
proof (cases "parseBody data")
  case (Inl err)
  then show ?thesis by (simp add: POST_def badRequest_def)
next
  case (Inr payload)
  with assms(1) have "bufferFrom pf (videoBase64 payload) = Inr buffer"
    by (simp add: parseBody_videoBase64)
  from POST_too_large [OF Inr this assms(2)] show ?thesis by simp
qed

text \<open>A complete request within the limit reaches the upload service once.\<close>

lemma POST_calls_service:
  assumes "parseBody data = Inr payload"
    and "bufferFrom pf (videoBase64 payload) = Inr buffer"
    and "length buffer \<le> 256 * 1024 * 1024"
    and "sliceTags (tags_u payload) = Inr tgs"
  shows "length (inserts (POST pf (Inr data))) = 1"
  using assms(1,4)
    decodeVideo_within_limit [of "bufferFrom pf" "videoBase64 payload" buffer, OF assms(2,3)]
  by (simp add: POST_def Let_def split: sum.split)

end
